theory Spec2Isabelle
  imports Main
begin

section \<open>The operation model of sebak (package operation)\<close>

text \<open>
  The package defines the closed set of operation tags, the factory \<open>NewOperation\<close>
  that wraps a payload into an \<open>Operation\<close>, the two delegating methods
  \<open>IsWellFormed\<close> and \<open>HasFee\<close>, and the two-phase JSON decoder
  \<open>Operation.UnmarshalJSON\<close> / \<open>UnmarshalBodyJSON\<close>.
  Go strings and byte slices are \<open>string\<close> (lists of bytes); a function with
  named results returns the tuple of their values.
\<close>

subsection \<open>Operation types\<close>

type_synonym OperationType = string

definition TypeCreateAccount :: OperationType where
  "TypeCreateAccount = ''create-account''"

definition TypePayment :: OperationType where
  "TypePayment = ''payment''"

definition TypeCongressVoting :: OperationType where
  "TypeCongressVoting = ''congress-voting''"

definition TypeCongressVotingResult :: OperationType where
  "TypeCongressVotingResult = ''congress-voting-result''"

definition TypeCollectTxFee :: OperationType where
  "TypeCollectTxFee = ''collect-tx-fee''"

definition TypeInflation :: OperationType where
  "TypeInflation = ''inflation''"

definition TypeUnfreezingRequest :: OperationType where
  "TypeUnfreezingRequest = ''unfreezing-request''"

definition TypeInflationPF :: OperationType where
  "TypeInflationPF = ''inflation-pf''"

text \<open>
  Modelled from the spec: \<open>common.InStringArray\<close> is called by
  \<open>IsValidOperationType\<close> but is not among the sources. The registry is specified
  as an exact, case-sensitive match against the listed strings, so the helper is a
  left-to-right search by string equality; it returns the index of the first match and
  whether there was one (\<open>-1\<close> and false when there is none).
\<close>

fun InStringArray_from :: "int \<Rightarrow> string list \<Rightarrow> string \<Rightarrow> int \<times> bool" where
  "InStringArray_from i [] s = (-1, False)"
| "InStringArray_from i (h # a) s =
     (if h = s then (i, True) else InStringArray_from (i + 1) a s)"

definition InStringArray :: "string list \<Rightarrow> string \<Rightarrow> int \<times> bool" where
  "InStringArray a s = InStringArray_from 0 a s"

definition IsValidOperationType :: "string \<Rightarrow> bool" where
  "IsValidOperationType oType =
     (let (_, b) = InStringArray
        [TypeCreateAccount, TypePayment, TypeCongressVoting, TypeCongressVotingResult,
         TypeCollectTxFee, TypeInflation, TypeUnfreezingRequest, TypeInflationPF] oType
      in b)"

definition IsNormalOperation :: "OperationType \<Rightarrow> bool" where
  "IsNormalOperation t =
     (if t = TypeCreateAccount \<or> t = TypePayment \<or>
         t = TypeCongressVoting \<or> t = TypeCongressVotingResult \<or>
         t = TypeUnfreezingRequest \<or> t = TypeInflationPF
      then True
      else False)"

subsection \<open>Errors, headers, bodies and operations\<close>

text \<open>
  \<open>errors.UnknownOperationType\<close> and \<open>errors.InvalidOperation\<close> are the two error
  values of the package; the remaining constructors are the errors of
  \<open>encoding/json\<close> and whatever else a payload decoder or a payload check reports.
\<close>

datatype error =
    UnknownOperationType
  | InvalidOperation
  | SyntaxError
  | UnmarshalTypeError
  | OtherError string

record Header =
  Type :: OperationType

text \<open>
  The eight payload struct types. Their declarations are not among the sources, so the
  contents of a payload are a type parameter \<open>'p\<close> of the model.
\<close>

datatype Variant =
    CreateAccount
  | Payment
  | CollectTxFee
  | Inflation
  | UnfreezeRequest
  | CongressVoting
  | CongressVotingResult
  | InflationPF

text \<open>
  A non-nil value of the interface type \<open>Body\<close> is a dynamic type with a value of
  that type. The dynamic type is one of the eight structs, a pointer to one of them
  (a pointer has the methods of its element, so it is a \<open>Body\<close> too), or any other
  type with the two methods. The nil interface is \<open>None\<close>.
\<close>

datatype GoType =
    Struct Variant
  | PtrTo Variant
  | Foreign string

datatype 'p Body = Iface GoType 'p

record 'p Operation =
  H :: Header
  B :: "'p Body option"

text \<open>The zero value of \<open>Operation\<close>: an empty tag and a nil body.\<close>

definition zero_Operation :: "'p Operation" where
  "zero_Operation = \<lparr>H = \<lparr>Type = []\<rparr>, B = None\<rparr>"

subsection \<open>The factory\<close>

text \<open>
  \<open>NewOperation\<close> returns the pair \<open>(op, err)\<close> of its named results. The type switch
  has one case per struct type, in the order of the source; every other dynamic type,
  and the nil interface, take the default arm, which sets \<open>err\<close> and returns \<open>op\<close>
  as it was declared.
\<close>

fun NewOperation :: "'p Body option \<Rightarrow> 'p Operation \<times> error option" where
  "NewOperation (Some (Iface (Struct CreateAccount) v)) =
     (\<lparr>H = \<lparr>Type = TypeCreateAccount\<rparr>, B = Some (Iface (Struct CreateAccount) v)\<rparr>, None)"
| "NewOperation (Some (Iface (Struct Payment) v)) =
     (\<lparr>H = \<lparr>Type = TypePayment\<rparr>, B = Some (Iface (Struct Payment) v)\<rparr>, None)"
| "NewOperation (Some (Iface (Struct CollectTxFee) v)) =
     (\<lparr>H = \<lparr>Type = TypeCollectTxFee\<rparr>, B = Some (Iface (Struct CollectTxFee) v)\<rparr>, None)"
| "NewOperation (Some (Iface (Struct Inflation) v)) =
     (\<lparr>H = \<lparr>Type = TypeInflation\<rparr>, B = Some (Iface (Struct Inflation) v)\<rparr>, None)"
| "NewOperation (Some (Iface (Struct UnfreezeRequest) v)) =
     (\<lparr>H = \<lparr>Type = TypeUnfreezingRequest\<rparr>, B = Some (Iface (Struct UnfreezeRequest) v)\<rparr>, None)"
| "NewOperation (Some (Iface (Struct CongressVoting) v)) =
     (\<lparr>H = \<lparr>Type = TypeCongressVoting\<rparr>, B = Some (Iface (Struct CongressVoting) v)\<rparr>, None)"
| "NewOperation (Some (Iface (Struct CongressVotingResult) v)) =
     (\<lparr>H = \<lparr>Type = TypeCongressVotingResult\<rparr>, B = Some (Iface (Struct CongressVotingResult) v)\<rparr>, None)"
| "NewOperation (Some (Iface (Struct InflationPF) v)) =
     (\<lparr>H = \<lparr>Type = TypeInflationPF\<rparr>, B = Some (Iface (Struct InflationPF) v)\<rparr>, None)"
| "NewOperation _ = (zero_Operation, Some UnknownOperationType)"

subsection \<open>The two delegating methods\<close>

text \<open>
  The methods of a payload are not among the sources: \<open>IsWellFormed\<close> and
  \<open>HasFee\<close> of the \<open>Body\<close> interface are parameters, functions of the interface
  value. \<open>Config\<close> is any type \<open>'c\<close>. A method call through the nil interface is a
  run-time panic.
\<close>

datatype 'a outcome = Returns 'a | Panics

definition IsWellFormed ::
  "('p Body \<Rightarrow> 'c \<Rightarrow> error option) \<Rightarrow> 'p Operation \<Rightarrow> 'c \<Rightarrow> error option outcome" where
  "IsWellFormed Body_IsWellFormed op conf =
     (case B op of
        None \<Rightarrow> Panics
      | Some b \<Rightarrow> Returns (Body_IsWellFormed b conf))"

definition HasFee :: "('p Body \<Rightarrow> bool) \<Rightarrow> 'p Operation \<Rightarrow> bool outcome" where
  "HasFee Body_HasFee op =
     (case B op of
        None \<Rightarrow> Panics
      | Some b \<Rightarrow> Returns (Body_HasFee b))"

subsection \<open>The decoder\<close>

text \<open>
  \<open>json.Unmarshal\<close> belongs to Go's standard library and the payload types are not
  among the sources, so the decoder takes both calls as parameters:
  \<open>unmarshal_payload k b\<close> is \<open>json.Unmarshal(b, &ob)\<close> for a fresh \<open>ob\<close> of the
  struct type \<open>k\<close> (the error, or the value of \<open>ob\<close>), and \<open>unmarshal_envelop b\<close> is
  \<open>json.Unmarshal(b, &oj)\<close> for the envelope of \<open>UnmarshalJSON\<close> (the error, or
  \<open>oj.H\<close> with the bytes collected in \<open>raw\<close>).

  \<open>UnmarshalBodyJSON\<close> returns its two named results \<open>(body, err)\<close>; \<open>body\<close> stays
  nil on every path that sets \<open>err\<close>.
\<close>

definition decode_as ::
  "(Variant \<Rightarrow> string \<Rightarrow> error + 'p) \<Rightarrow> Variant \<Rightarrow> string \<Rightarrow> 'p Body option \<times> error option" where
  "decode_as unmarshal_payload k b =
     (case unmarshal_payload k b of
        Inl err \<Rightarrow> (None, Some err)
      | Inr ob \<Rightarrow> (Some (Iface (Struct k) ob), None))"

definition UnmarshalBodyJSON ::
  "(Variant \<Rightarrow> string \<Rightarrow> error + 'p) \<Rightarrow> OperationType \<Rightarrow> string
     \<Rightarrow> 'p Body option \<times> error option" where
  "UnmarshalBodyJSON unmarshal_payload t b =
     (if t = TypeCreateAccount then decode_as unmarshal_payload CreateAccount b
      else if t = TypePayment then decode_as unmarshal_payload Payment b
      else if t = TypeCongressVoting then decode_as unmarshal_payload CongressVoting b
      else if t = TypeCongressVotingResult then decode_as unmarshal_payload CongressVotingResult b
      else if t = TypeCollectTxFee then decode_as unmarshal_payload CollectTxFee b
      else if t = TypeInflation then decode_as unmarshal_payload Inflation b
      else if t = TypeUnfreezingRequest then decode_as unmarshal_payload UnfreezeRequest b
      else if t = TypeInflationPF then decode_as unmarshal_payload InflationPF b
      else (None, Some InvalidOperation))"

text \<open>
  \<open>UnmarshalJSON\<close> has a pointer receiver: the model takes the receiver's value before
  the call and returns its value after the call, with the error.
\<close>

definition UnmarshalJSON ::
  "(string \<Rightarrow> error + Header \<times> string) \<Rightarrow> (Variant \<Rightarrow> string \<Rightarrow> error + 'p)
     \<Rightarrow> 'p Operation \<Rightarrow> string \<Rightarrow> 'p Operation \<times> error option" where
  "UnmarshalJSON unmarshal_envelop unmarshal_payload op b =
     (case unmarshal_envelop b of
        Inl err \<Rightarrow> (op, Some err)
      | Inr (oj_H, raw) \<Rightarrow>
          (let op1 = op\<lparr>H := oj_H\<rparr> in
           case UnmarshalBodyJSON unmarshal_payload (Type oj_H) raw of
             (body, Some err) \<Rightarrow> (op1, Some err)
           | (body, None) \<Rightarrow> (op1\<lparr>B := body\<rparr>, None)))"

subsection \<open>The correspondence of struct types and tags\<close>

text \<open>
  Each tag constant is named after the struct type it stands for
  (\<open>TypeUnfreezingRequest\<close> for \<open>UnfreezeRequest\<close>). An operation is consistent when
  its body holds one of the eight structs and its header holds that struct's tag.
\<close>

fun variantType :: "Variant \<Rightarrow> OperationType" where
  "variantType CreateAccount = TypeCreateAccount"
| "variantType Payment = TypePayment"
| "variantType CollectTxFee = TypeCollectTxFee"
| "variantType Inflation = TypeInflation"
| "variantType UnfreezeRequest = TypeUnfreezingRequest"
| "variantType CongressVoting = TypeCongressVoting"
| "variantType CongressVotingResult = TypeCongressVotingResult"
| "variantType InflationPF = TypeInflationPF"

definition header_matches_body :: "'p Operation \<Rightarrow> bool" where
  "header_matches_body op =
     (case B op of
        Some (Iface (Struct k) v) \<Rightarrow> Type (H op) = variantType k
      | _ \<Rightarrow> False)"

section \<open>A model of encoding/json\<close>

text \<open>
  What the decoder does with the results of \<open>json.Unmarshal\<close> is stated for every
  behaviour of that function. To run the decoder on concrete inputs, and to follow an
  operation through \<open>json.Marshal\<close> and back, this section models what the package
  \<open>encoding/json\<close> does for the envelope: the scanner that checks the input, the
  split of an object into its members, the unquoting of string literals, the decoding
  into the structs \<open>envelop\<close> and \<open>Header\<close>, and the encoding of an
  \<open>Operation\<close>.
\<close>

subsection \<open>encoding/json: the scanner\<close>

text \<open>
  The scanner is the state machine of \<open>scanner.go\<close>: the step to take on the next
  byte, and the stack of the enclosing objects and arrays, innermost first. An error
  leaves the state \<open>stateError\<close>. Objects and arrays nested more than
  \<open>maxNestingDepth\<close> deep are an error.
\<close>

definition isSpace :: "char \<Rightarrow> bool" where
  "isSpace c = (c = CHR '' '' \<or> c = CHR 0x09 \<or> c = CHR 0x0D \<or> c = CHR 0x0A)"

definition isDigit :: "char \<Rightarrow> bool" where
  "isDigit c = (CHR ''0'' = c \<or> c \<in> set ''123456789'')"

definition isDigit19 :: "char \<Rightarrow> bool" where
  "isDigit19 c = (c \<in> set ''123456789'')"

definition isHex :: "char \<Rightarrow> bool" where
  "isHex c = (c \<in> set ''0123456789abcdefABCDEF'')"

datatype parseState = parseObjectKey | parseObjectValue | parseArrayValue

datatype step =
    stateBeginValueOrEmpty | stateBeginValue | stateBeginStringOrEmpty | stateBeginString
  | stateEndValue | stateEndTop
  | stateInString | stateInStringEsc
  | stateInStringEscU | stateInStringEscU1 | stateInStringEscU12 | stateInStringEscU123
  | stateNeg | state1 | state0 | stateDot | stateDot0 | stateE | stateESign | stateE0
  | stateT | stateTr | stateTru | stateF | stateFa | stateFal | stateFals
  | stateN | stateNu | stateNul
  | stateError

type_synonym scanner = "step \<times> parseState list"

definition scanError :: scanner where
  "scanError = (stateError, [])"

definition maxNestingDepth :: int where
  "maxNestingDepth = 10000"

definition pushParseState :: "parseState \<Rightarrow> step \<Rightarrow> parseState list \<Rightarrow> scanner" where
  "pushParseState newParseState successState stk =
     (if int (length (newParseState # stk)) \<le> maxNestingDepth then (successState, newParseState # stk)
      else scanError)"

definition popParseState :: "parseState list \<Rightarrow> scanner" where
  "popParseState stk = (case stk of [] \<Rightarrow> (stateEndTop, []) | _ # _ \<Rightarrow> (stateEndValue, stk))"

definition endTop :: "char \<Rightarrow> scanner" where
  "endTop c = (if isSpace c then (stateEndTop, []) else scanError)"

fun endValue :: "parseState list \<Rightarrow> char \<Rightarrow> scanner" where
  "endValue [] c = endTop c"
| "endValue (ps # stk) c =
     (if isSpace c then (stateEndValue, ps # stk)
      else case ps of
        parseObjectKey \<Rightarrow>
          if c = CHR '':'' then (stateBeginValue, parseObjectValue # stk) else scanError
      | parseObjectValue \<Rightarrow>
          if c = CHR '','' then (stateBeginString, parseObjectKey # stk)
          else if c = CHR ''}'' then popParseState stk
          else scanError
      | parseArrayValue \<Rightarrow>
          if c = CHR '','' then (stateBeginValue, ps # stk)
          else if c = CHR '']'' then popParseState stk
          else scanError)"

definition beginValue :: "step \<Rightarrow> parseState list \<Rightarrow> char \<Rightarrow> scanner" where
  \<open>beginValue cur stk c =
     (if isSpace c then (cur, stk)
      else if c = CHR ''{'' then pushParseState parseObjectKey stateBeginStringOrEmpty stk
      else if c = CHR ''['' then pushParseState parseArrayValue stateBeginValueOrEmpty stk
      else if c = CHR ''"'' then (stateInString, stk)
      else if c = CHR ''-'' then (stateNeg, stk)
      else if c = CHR ''0'' then (state0, stk)
      else if c = CHR ''t'' then (stateT, stk)
      else if c = CHR ''f'' then (stateF, stk)
      else if c = CHR ''n'' then (stateN, stk)
      else if isDigit19 c then (state1, stk)
      else scanError)\<close>

definition beginString :: "step \<Rightarrow> parseState list \<Rightarrow> char \<Rightarrow> scanner" where
  \<open>beginString cur stk c =
     (if isSpace c then (cur, stk)
      else if c = CHR ''"'' then (stateInString, stk)
      else scanError)\<close>

definition lit :: "char \<Rightarrow> step \<Rightarrow> parseState list \<Rightarrow> char \<Rightarrow> scanner" where
  "lit want next stk c = (if c = want then (next, stk) else scanError)"

definition after0 :: "parseState list \<Rightarrow> char \<Rightarrow> scanner" where
  "after0 stk c =
     (if c = CHR ''.'' then (stateDot, stk)
      else if c = CHR ''e'' \<or> c = CHR ''E'' then (stateE, stk)
      else endValue stk c)"

definition afterESign :: "parseState list \<Rightarrow> char \<Rightarrow> scanner" where
  "afterESign stk c = (if isDigit c then (stateE0, stk) else scanError)"

fun scan_step :: "scanner \<Rightarrow> char \<Rightarrow> scanner" where
  "scan_step (stateBeginValueOrEmpty, stk) c =
     (if isSpace c then (stateBeginValueOrEmpty, stk)
      else if c = CHR '']'' then endValue stk c
      else beginValue stateBeginValueOrEmpty stk c)"
| "scan_step (stateBeginValue, stk) c = beginValue stateBeginValue stk c"
| "scan_step (stateBeginStringOrEmpty, stk) c =
     (if isSpace c then (stateBeginStringOrEmpty, stk)
      else if c = CHR ''}'' then endValue (parseObjectValue # tl stk) c
      else beginString stateBeginStringOrEmpty stk c)"
| "scan_step (stateBeginString, stk) c = beginString stateBeginString stk c"
| "scan_step (stateEndValue, stk) c = endValue stk c"
| "scan_step (stateEndTop, stk) c = endTop c"
| \<open>scan_step (stateInString, stk) c =
     (if c = CHR ''"'' then (stateEndValue, stk)
      else if c = CHR 0x5C then (stateInStringEsc, stk)
      else if of_char c < (0x20 :: int) then scanError
      else (stateInString, stk))\<close>
| \<open>scan_step (stateInStringEsc, stk) c =
     (if c \<in> set ''bfnrt/"'' \<or> c = CHR 0x5C then (stateInString, stk)
      else if c = CHR ''u'' then (stateInStringEscU, stk)
      else scanError)\<close>
| "scan_step (stateInStringEscU, stk) c = (if isHex c then (stateInStringEscU1, stk) else scanError)"
| "scan_step (stateInStringEscU1, stk) c = (if isHex c then (stateInStringEscU12, stk) else scanError)"
| "scan_step (stateInStringEscU12, stk) c = (if isHex c then (stateInStringEscU123, stk) else scanError)"
| "scan_step (stateInStringEscU123, stk) c = (if isHex c then (stateInString, stk) else scanError)"
| "scan_step (stateNeg, stk) c =
     (if c = CHR ''0'' then (state0, stk)
      else if isDigit19 c then (state1, stk)
      else scanError)"
| "scan_step (state1, stk) c =
     (if isDigit c then (state1, stk) else after0 stk c)"
| "scan_step (state0, stk) c = after0 stk c"
| "scan_step (stateDot, stk) c = (if isDigit c then (stateDot0, stk) else scanError)"
| "scan_step (stateDot0, stk) c =
     (if isDigit c then (stateDot0, stk)
      else if c = CHR ''e'' \<or> c = CHR ''E'' then (stateE, stk)
      else endValue stk c)"
| "scan_step (stateE, stk) c =
     (if c = CHR ''+'' \<or> c = CHR ''-'' then (stateESign, stk)
      else afterESign stk c)"
| "scan_step (stateESign, stk) c = afterESign stk c"
| "scan_step (stateE0, stk) c = (if isDigit c then (stateE0, stk) else endValue stk c)"
| "scan_step (stateT, stk) c = lit (CHR ''r'') stateTr stk c"
| "scan_step (stateTr, stk) c = lit (CHR ''u'') stateTru stk c"
| "scan_step (stateTru, stk) c = lit (CHR ''e'') stateEndValue stk c"
| "scan_step (stateF, stk) c = lit (CHR ''a'') stateFa stk c"
| "scan_step (stateFa, stk) c = lit (CHR ''l'') stateFal stk c"
| "scan_step (stateFal, stk) c = lit (CHR ''s'') stateFals stk c"
| "scan_step (stateFals, stk) c = lit (CHR ''e'') stateEndValue stk c"
| "scan_step (stateN, stk) c = lit (CHR ''u'') stateNu stk c"
| "scan_step (stateNu, stk) c = lit (CHR ''l'') stateNul stk c"
| "scan_step (stateNul, stk) c = lit (CHR ''l'') stateEndValue stk c"
| "scan_step (stateError, stk) c = scanError"

definition scan_eof :: "scanner \<Rightarrow> bool" where
  "scan_eof s =
     (fst s \<noteq> stateError \<and>
      (fst s = stateEndTop \<or> fst (scan_step s (CHR '' '')) = stateEndTop))"

definition checkValid :: "string \<Rightarrow> bool" where
  "checkValid data = scan_eof (foldl scan_step (stateBeginValue, []) data)"

subsection \<open>encoding/json: members of an object, string literals, field names\<close>

text \<open>
  The decoder walks input that \<open>checkValid\<close> has accepted. \<open>object_members\<close>
  gives the members of the object that a text starts with, in order: for each member
  the string literal of its key and the text of its value, both without the white
  space around them. It follows the scanner through the text; at nesting depth one,
  the colon that the scanner takes after a key ends the key, the comma it takes after
  a value ends the member, and the closing brace ends the object.
\<close>

definition trim :: "string \<Rightarrow> string" where
  "trim s = rev (dropWhile isSpace (rev (dropWhile isSpace s)))"

fun object_members_from ::
  "scanner \<Rightarrow> bool \<Rightarrow> string \<Rightarrow> string \<Rightarrow> (string \<times> string) list \<Rightarrow> string
     \<Rightarrow> (string \<times> string) list" where
  "object_members_from s inkey key cur out [] = rev out"
| "object_members_from s inkey key cur out (c # cs) =
     (let s' = scan_step s c in
      if snd s' = [] then
        rev (if inkey then out else (key, trim (rev cur)) # out)
      else if snd s = [parseObjectKey] \<and> s' = (stateBeginValue, [parseObjectValue]) then
        object_members_from s' False (trim (rev cur)) [] out cs
      else if snd s = [parseObjectValue] \<and> s' = (stateBeginString, [parseObjectKey]) then
        object_members_from s' True [] [] ((key, trim (rev cur)) # out) cs
      else object_members_from s' inkey key (c # cur) out cs)"

definition object_members :: "string \<Rightarrow> (string \<times> string) list" where
  "object_members v =
     (case v of
        [] \<Rightarrow> []
      | c # cs \<Rightarrow> object_members_from (scan_step (stateBeginValue, []) c) True [] [] [] cs)"

text \<open>
  \<open>unquote\<close> is the string that a string literal stands for: the escapes are
  replaced, a four-digit escape by the UTF-8 encoding of its code point (a pair of
  surrogates by the code point of the pair, a lone surrogate by U+FFFD), and each byte
  that starts no well-formed UTF-8 sequence by U+FFFD.
\<close>

definition hexval :: "char \<Rightarrow> int" where
  "hexval c =
     (let n = of_char c in
      if 0x30 \<le> n \<and> n \<le> 0x39 then n - 0x30
      else if 0x61 \<le> n \<and> n \<le> 0x66 then n - 0x61 + 10
      else n - 0x41 + 10)"

definition getu4 :: "string \<Rightarrow> int option" where
  "getu4 s =
     (case s of
        b # u # h1 # h2 # h3 # h4 # _ \<Rightarrow>
          if b = CHR 0x5C \<and> u = CHR ''u'' \<and> isHex h1 \<and> isHex h2 \<and> isHex h3 \<and> isHex h4
          then Some (((hexval h1 * 16 + hexval h2) * 16 + hexval h3) * 16 + hexval h4)
          else None
      | _ \<Rightarrow> None)"

definition EncodeRune :: "int \<Rightarrow> string" where
  "EncodeRune r =
     (if r < 0x80 then [char_of r]
      else if r < 0x800 then [char_of (0xC0 + r div 64), char_of (0x80 + r mod 64)]
      else if r < 0x10000 then
        [char_of (0xE0 + r div 4096), char_of (0x80 + r div 64 mod 64), char_of (0x80 + r mod 64)]
      else
        [char_of (0xF0 + r div 262144), char_of (0x80 + r div 4096 mod 64),
         char_of (0x80 + r div 64 mod 64), char_of (0x80 + r mod 64)])"

definition ReplacementChar :: int where
  "ReplacementChar = 0xFFFD"

definition cont :: "char \<Rightarrow> bool" where
  "cont c = (0x80 \<le> (of_char c :: int) \<and> (of_char c :: int) \<le> 0xBF)"

definition between :: "int \<Rightarrow> int \<Rightarrow> char \<Rightarrow> bool" where
  "between lo hi c = (lo \<le> of_char c \<and> of_char c \<le> hi)"

text \<open>The number of bytes of the UTF-8 sequence at the head of the input; 0 when malformed.\<close>

definition rune_len :: "string \<Rightarrow> nat" where
  "rune_len s =
     (case s of
        [] \<Rightarrow> 0
      | c0 # r0 \<Rightarrow>
          if between 0xC2 0xDF c0 then
            (case r0 of c1 # _ \<Rightarrow> if cont c1 then 2 else 0 | _ \<Rightarrow> 0)
          else if between 0xE0 0xEF c0 then
            (case r0 of
               c1 # c2 # _ \<Rightarrow>
                 if between (if c0 = CHR 0xE0 then 0xA0 else 0x80)
                            (if c0 = CHR 0xED then 0x9F else 0xBF) c1 \<and> cont c2
                 then 3 else 0
             | _ \<Rightarrow> 0)
          else if between 0xF0 0xF4 c0 then
            (case r0 of
               c1 # c2 # c3 # _ \<Rightarrow>
                 if between (if c0 = CHR 0xF0 then 0x90 else 0x80)
                            (if c0 = CHR 0xF4 then 0x8F else 0xBF) c1 \<and> cont c2 \<and> cont c3
                 then 4 else 0
             | _ \<Rightarrow> 0)
          else 0)"

definition unescape :: "char \<Rightarrow> char" where
  "unescape c =
     (if c = CHR ''b'' then CHR 0x08
      else if c = CHR ''f'' then CHR 0x0C
      else if c = CHR ''n'' then CHR 0x0A
      else if c = CHR ''r'' then CHR 0x0D
      else if c = CHR ''t'' then CHR 0x09
      else c)"

text \<open>
  The contents of a string literal, between its quotes, unquoted. The counter is the
  number of bytes still to be dropped after a multi-byte step.
\<close>

fun unquote_from :: "nat \<Rightarrow> string \<Rightarrow> string" where
  "unquote_from n [] = []"
| "unquote_from (Suc n) (c # cs) = unquote_from n cs"
| "unquote_from 0 (c # cs) =
     (if c = CHR 0x5C then
        (case cs of
           [] \<Rightarrow> []
         | e # es \<Rightarrow>
             if e = CHR ''u'' then
               (case getu4 (c # cs) of
                  None \<Rightarrow> []
                | Some rr \<Rightarrow>
                    if 0xD800 \<le> rr \<and> rr < 0xE000 then
                      (case getu4 (drop 5 cs) of
                         Some rr1 \<Rightarrow>
                           if rr < 0xDC00 \<and> 0xDC00 \<le> rr1 \<and> rr1 < 0xE000
                           then EncodeRune ((rr - 0xD800) * 1024 + (rr1 - 0xDC00) + 0x10000)
                                  @ unquote_from 11 cs
                           else EncodeRune ReplacementChar @ unquote_from 5 cs
                       | None \<Rightarrow> EncodeRune ReplacementChar @ unquote_from 5 cs)
                    else EncodeRune rr @ unquote_from 5 cs)
             else unescape e # unquote_from 1 cs)
      else if (of_char c :: int) < 0x80 then c # unquote_from 0 cs
      else
        (case rune_len (c # cs) of
           0 \<Rightarrow> EncodeRune ReplacementChar @ unquote_from 0 cs
         | Suc k \<Rightarrow> c # take k cs @ unquote_from k cs))"

definition unquote :: "string \<Rightarrow> string" where
  "unquote item = unquote_from 0 (butlast (tl item))"

text \<open>
  A key selects the field of that name, compared exactly or else without regard to
  case. For the names \<open>H\<close>, \<open>B\<close> and \<open>type\<close> that is the comparison of the
  ASCII letters (only the letters k and s have further case variants).
\<close>

definition toUpper :: "char \<Rightarrow> char" where
  "toUpper c =
     (if 0x61 \<le> (of_char c :: int) \<and> (of_char c :: int) \<le> 0x7A
      then char_of ((of_char c :: int) - 0x20) else c)"

definition fieldMatches :: "string \<Rightarrow> string \<Rightarrow> bool" where
  "fieldMatches name key = (key = name \<or> map toUpper key = map toUpper name)"

subsection \<open>encoding/json: numbers decoded into an empty interface\<close>

text \<open>
  A value decoded into an empty interface has each of its numbers converted by
  \<open>strconv.ParseFloat\<close>, which fails on a number that rounds to infinity.
  \<open>number_tokens\<close> are the number literals of a text, as the scanner delimits them.
  A literal with the digits \<open>m\<close> (integer and fraction part together), a fraction of
  \<open>f\<close> digits and the exponent \<open>e\<close> stands for \<open>m * 10 ^ (e - f)\<close>; it
  rounds to infinity from \<open>2 ^ 1024 - 2 ^ 970\<close> on. \<open>ParseFloat\<close> stops
  accumulating the exponent once it has reached 10000.
\<close>

definition isNumberStep :: "step \<Rightarrow> bool" where
  "isNumberStep s =
     (s = stateNeg \<or> s = state1 \<or> s = state0 \<or> s = stateDot \<or> s = stateDot0 \<or>
      s = stateE \<or> s = stateESign \<or> s = stateE0)"

fun number_tokens_from :: "scanner \<Rightarrow> string \<Rightarrow> string list \<Rightarrow> string \<Rightarrow> string list" where
  "number_tokens_from s cur out [] = rev (if cur = [] then out else rev cur # out)"
| "number_tokens_from s cur out (c # cs) =
     (let s' = scan_step s c in
      if isNumberStep (fst s') then number_tokens_from s' (c # cur) out cs
      else number_tokens_from s' [] (if cur = [] then out else rev cur # out) cs)"

definition number_tokens :: "string \<Rightarrow> string list" where
  "number_tokens v = number_tokens_from (stateBeginValue, []) [] [] v"

definition digit_value :: "char \<Rightarrow> int" where
  "digit_value c = of_char c - 0x30"

definition mantissa_value :: "string \<Rightarrow> int" where
  "mantissa_value ds = foldl (\<lambda>n c. n * 10 + digit_value c) 0 ds"

definition exponent_value :: "string \<Rightarrow> int" where
  "exponent_value ds = foldl (\<lambda>e c. if e < 10000 then e * 10 + digit_value c else e) 0 ds"

definition float64_overflows :: "string \<Rightarrow> bool" where
  "float64_overflows tok =
     (let t = (if take 1 tok = ''-'' then drop 1 tok else tok);
          ip = takeWhile isDigit t;
          r1 = dropWhile isDigit t;
          fp = (if take 1 r1 = ''.'' then takeWhile isDigit (drop 1 r1) else []);
          r2 = (if take 1 r1 = ''.'' then dropWhile isDigit (drop 1 r1) else r1);
          x = drop 1 r2;
          negative = (take 1 x = ''-'');
          ed = (if take 1 x = ''-'' \<or> take 1 x = ''+'' then drop 1 x else x);
          m = mantissa_value (ip @ fp);
          e = exponent_value ed;
          f = int (length fp);
          limit = (2 :: int) ^ 1024 - 2 ^ 970
      in m \<noteq> 0 \<and>
         (if negative then limit * 10 ^ nat (e + f) \<le> m
          else if f \<le> e then limit \<le> m * 10 ^ nat (e - f)
          else limit * 10 ^ nat (f - e) \<le> m))"

subsection \<open>encoding/json: decoding the envelope\<close>

text \<open>
  \<open>saveError\<close> keeps the first error; the decoder goes on and reports it at the end.
\<close>

definition saveError :: "error \<Rightarrow> error option \<Rightarrow> error option" where
  "saveError err saved = (case saved of None \<Rightarrow> Some err | Some e \<Rightarrow> Some e)"

text \<open>
  A value for the field \<open>Type\<close> (a string type): a string literal is stored unquoted,
  \<open>null\<close> is ignored, every other value is a type error.
\<close>

definition decode_Type :: "string \<Rightarrow> Header \<times> error option \<Rightarrow> Header \<times> error option" where
  \<open>decode_Type v st =
     (case v of
        [] \<Rightarrow> st
      | c # _ \<Rightarrow>
          if c = CHR ''"'' then (fst st\<lparr>Type := unquote v\<rparr>, snd st)
          else if c = CHR ''n'' then st
          else (fst st, saveError UnmarshalTypeError (snd st)))\<close>

definition Header_member :: "Header \<times> error option \<Rightarrow> string \<times> string \<Rightarrow> Header \<times> error option" where
  "Header_member st m =
     (if fieldMatches ''type'' (unquote (fst m)) then decode_Type (snd m) st else st)"

text \<open>
  A value for the field \<open>H\<close> (the struct \<open>Header\<close>): the members of an object are
  stored one by one, \<open>null\<close> is ignored, every other value is a type error.
\<close>

definition decode_Header :: "string \<Rightarrow> Header \<times> error option \<Rightarrow> Header \<times> error option" where
  "decode_Header v st =
     (case v of
        [] \<Rightarrow> st
      | c # _ \<Rightarrow>
          if c = CHR ''{'' then foldl Header_member st (object_members v)
          else if c = CHR ''n'' then st
          else (fst st, saveError UnmarshalTypeError (snd st)))"

text \<open>
  The envelope \<open>oj\<close> while it is decoded: \<open>oj.H\<close>, the bytes in \<open>raw\<close>, whether
  \<open>oj.B\<close> still holds the pointer to \<open>raw\<close>, and the saved error. A value for the
  field \<open>B\<close> is copied to \<open>raw\<close> as it stands (\<open>json.RawMessage\<close>); \<open>null\<close> sets
  \<open>oj.B\<close> to nil instead, and a later value for \<open>B\<close> then no longer reaches
  \<open>raw\<close>: it is decoded into the empty interface, which fails on a number beyond
  the range of \<open>float64\<close>.
\<close>

record envelop_decoding =
  oj_H :: Header
  raw :: string
  oj_B_set :: bool
  savedError :: "error option"

definition envelop_member :: "envelop_decoding \<Rightarrow> string \<times> string \<Rightarrow> envelop_decoding" where
  "envelop_member oj m =
     (let key = unquote (fst m); v = snd m in
      if fieldMatches ''H'' key then
        (let st = decode_Header v (oj_H oj, savedError oj)
         in oj\<lparr>oj_H := fst st, savedError := snd st\<rparr>)
      else if fieldMatches ''B'' key then
        (if take 1 v = ''n'' then oj\<lparr>oj_B_set := False\<rparr>
         else if oj_B_set oj then oj\<lparr>raw := v\<rparr>
         else if list_ex float64_overflows (number_tokens v) then
           oj\<lparr>savedError := saveError UnmarshalTypeError (savedError oj)\<rparr>
         else oj)
      else oj)"

text \<open>
  \<open>json.Unmarshal(b, &oj)\<close> with \<open>oj := envelop{B: &raw}\<close>: the input is checked
  first; an object is decoded member by member, \<open>null\<close> changes nothing, every other
  value is a type error. The result is the error, or \<open>oj.H\<close> and \<open>raw\<close>.
\<close>

definition json_Unmarshal_envelop :: "string \<Rightarrow> error + Header \<times> string" where
  "json_Unmarshal_envelop b =
     (if \<not> checkValid b then Inl SyntaxError
      else
        (case trim b of
           [] \<Rightarrow> Inl SyntaxError
         | c # _ \<Rightarrow>
             if c = CHR ''{'' then
               (let oj = foldl envelop_member
                           \<lparr>oj_H = \<lparr>Type = []\<rparr>, raw = [], oj_B_set = True, savedError = None\<rparr>
                           (object_members (trim b))
                in case savedError oj of
                     Some err \<Rightarrow> Inl err
                   | None \<Rightarrow> Inr (oj_H oj, raw oj))
             else if c = CHR ''n'' then Inr (\<lparr>Type = []\<rparr>, [])
             else Inl UnmarshalTypeError))"

subsection \<open>encoding/json: encoding an operation\<close>

definition hexdigit :: "int \<Rightarrow> char" where
  "hexdigit n = ''0123456789abcdef'' ! nat (n mod 16)"

text \<open>
  A string as \<open>json.Marshal\<close> writes it, without the quotes: the quote, the
  backslash, the control characters and \<open><\<close>, \<open>>\<close>, \<open>&\<close> are escaped, a byte
  that starts no well-formed UTF-8 sequence becomes the escape of U+FFFD, and U+2028
  and U+2029 are escaped. (Older releases write backspace and form feed as four-digit
  escapes.) The counter is as in \<open>unquote_from\<close>.
\<close>

fun encode_from :: "nat \<Rightarrow> string \<Rightarrow> string" where
  "encode_from n [] = []"
| "encode_from (Suc n) (c # cs) = encode_from n cs"
| \<open>encode_from 0 (c # cs) =
     (if (of_char c :: int) < 0x80 then
        (if c = CHR ''"'' \<or> c = CHR 0x5C then [CHR 0x5C, c]
         else if c = CHR 0x08 then [CHR 0x5C, CHR ''b'']
         else if c = CHR 0x0C then [CHR 0x5C, CHR ''f'']
         else if c = CHR 0x0A then [CHR 0x5C, CHR ''n'']
         else if c = CHR 0x0D then [CHR 0x5C, CHR ''r'']
         else if c = CHR 0x09 then [CHR 0x5C, CHR ''t'']
         else if (of_char c :: int) < 0x20 \<or> c = CHR ''<'' \<or> c = CHR ''>'' \<or> c = CHR ''&'' then
           [CHR 0x5C, CHR ''u'', CHR ''0'', CHR ''0'',
            hexdigit (of_char c div 16), hexdigit (of_char c)]
         else [c]) @ encode_from 0 cs
      else
        (case rune_len (c # cs) of
           0 \<Rightarrow> CHR 0x5C # ''ufffd'' @ encode_from 0 cs
         | Suc k \<Rightarrow>
             (if c # take k cs = [CHR 0xE2, CHR 0x80, CHR 0xA8] then CHR 0x5C # ''u2028''
              else if c # take k cs = [CHR 0xE2, CHR 0x80, CHR 0xA9] then CHR 0x5C # ''u2029''
              else c # take k cs) @ encode_from k cs))\<close>

definition encode_string :: "string \<Rightarrow> string" where
  \<open>encode_string s = ''"'' @ encode_from 0 s @ ''"''\<close>


subsection \<open>A payload type for worked examples\<close>

text \<open>
  The payload structs are not among the sources. For evaluating the decoder on
  concrete inputs, a payload is taken to be the list of its fields, each a name with
  the JSON text of its value: decoding keeps the members of an object (in order, the
  names unquoted), \<open>null\<close> leaves the struct empty, any other value is a type error
  and invalid input a syntax error, as for every struct.
\<close>

type_synonym fields = "(string \<times> string) list"

definition fields_Unmarshal :: "Variant \<Rightarrow> string \<Rightarrow> error + fields" where
  "fields_Unmarshal k b =
     (if \<not> checkValid b then Inl SyntaxError
      else
        (case trim b of
           [] \<Rightarrow> Inl SyntaxError
         | c # _ \<Rightarrow>
             if c = CHR ''{'' then Inr (map (\<lambda>m. (unquote (fst m), snd m)) (object_members (trim b)))
             else if c = CHR ''n'' then Inr []
             else Inl UnmarshalTypeError))"

fun fields_members :: "fields \<Rightarrow> string" where
  "fields_members [] = []"
| "fields_members [(k, v)] = encode_string k @ '':'' @ v"
| "fields_members ((k, v) # m # ms) = encode_string k @ '':'' @ v @ '','' @ fields_members (m # ms)"

definition fields_Marshal :: "fields Body \<Rightarrow> error + string" where
  "fields_Marshal body = (case body of Iface T fs \<Rightarrow> Inr (''{'' @ fields_members fs @ ''}''))"

subsection \<open>The payment payload\<close>








section \<open>Properties\<close>

lemmas OperationType_defs =
  TypeCreateAccount_def TypePayment_def TypeCongressVoting_def
  TypeCongressVotingResult_def TypeCollectTxFee_def TypeInflation_def
  TypeUnfreezingRequest_def TypeInflationPF_def

subsection \<open>The registry\<close>

lemma InStringArray_from_found: "snd (InStringArray_from i a s) \<longleftrightarrow> s \<in> set a"
  by (induction a arbitrary: i) auto

lemma IsValidOperationType_set:
  "IsValidOperationType s \<longleftrightarrow>
     s \<in> {TypeCreateAccount, TypePayment, TypeCongressVoting, TypeCongressVotingResult,
          TypeCollectTxFee, TypeInflation, TypeUnfreezingRequest, TypeInflationPF}"
proof -
  have "IsValidOperationType s \<longleftrightarrow>
          snd (InStringArray_from 0
            [TypeCreateAccount, TypePayment, TypeCongressVoting, TypeCongressVotingResult,
             TypeCollectTxFee, TypeInflation, TypeUnfreezingRequest, TypeInflationPF] s)"
    by (simp add: IsValidOperationType_def InStringArray_def split_beta)
  then show ?thesis
    by (simp only: InStringArray_from_found) auto
qed

text \<open>
  C7. \<open>IsValidOperationType\<close> is true exactly on the eight tag strings, compared byte
  for byte: no other string, and no other spelling of one of the eight, is accepted.
\<close>

theorem IsValidOperationType_iff:
  "IsValidOperationType s \<longleftrightarrow>
     s \<in> {''create-account'', ''payment'', ''congress-voting'', ''congress-voting-result'',
          ''collect-tx-fee'', ''inflation'', ''unfreezing-request'', ''inflation-pf''}"
  using IsValidOperationType_set [of s] by (simp add: OperationType_defs)

text \<open>
  C8. \<open>IsNormalOperation\<close> is defined on every string. It is true exactly on the six
  tags of the user-submitted operations, that is, exactly on the eight tags other than
  \<open>collect-tx-fee\<close> and \<open>inflation\<close>; so it is false on these two and on every
  string that is not one of the eight.
\<close>

theorem IsNormalOperation_iff:
  "(IsNormalOperation t \<longleftrightarrow>
      t \<in> {''create-account'', ''payment'', ''congress-voting'', ''congress-voting-result'',
           ''unfreezing-request'', ''inflation-pf''}) \<and>
   (IsNormalOperation t \<longleftrightarrow>
      t \<in> {TypeCreateAccount, TypePayment, TypeCongressVoting, TypeCongressVotingResult,
           TypeCollectTxFee, TypeInflation, TypeUnfreezingRequest, TypeInflationPF} \<and>
      t \<noteq> TypeCollectTxFee \<and> t \<noteq> TypeInflation) \<and>
   \<not> IsNormalOperation TypeCollectTxFee \<and>
   \<not> IsNormalOperation TypeInflation"
proof -
  have six: "IsNormalOperation u \<longleftrightarrow>
      u \<in> {''create-account'', ''payment'', ''congress-voting'', ''congress-voting-result'',
           ''unfreezing-request'', ''inflation-pf''}" for u
    by (simp add: IsNormalOperation_def OperationType_defs)
  have valid: "IsNormalOperation t \<longleftrightarrow>
      t \<in> {TypeCreateAccount, TypePayment, TypeCongressVoting, TypeCongressVotingResult,
           TypeCollectTxFee, TypeInflation, TypeUnfreezingRequest, TypeInflationPF} \<and>
      t \<noteq> TypeCollectTxFee \<and> t \<noteq> TypeInflation"
    unfolding six by (auto simp: OperationType_defs)
  have "\<not> IsNormalOperation TypeCollectTxFee" "\<not> IsNormalOperation TypeInflation"
    unfolding six by (simp_all add: OperationType_defs)
  with six [of t] valid show ?thesis by blast
qed

subsection \<open>The factory\<close>

text \<open>
  C5. For a payload whose dynamic type is one of the eight structs, \<open>NewOperation\<close>
  returns no error and the operation made of that struct's tag and the payload as it
  was given. The payload \<open>p\<close> is arbitrary: the factory looks at nothing but the
  dynamic type, and the operation it returns reports whatever the payload's own
  \<open>IsWellFormed\<close> says, a rejection included.
\<close>

theorem NewOperation_registered:
  "NewOperation (Some (Iface (Struct k) p)) =
     (\<lparr>H = \<lparr>Type = variantType k\<rparr>, B = Some (Iface (Struct k) p)\<rparr>, None) \<and>
   IsWellFormed body_wf (fst (NewOperation (Some (Iface (Struct k) p)))) conf =
     Returns (body_wf (Iface (Struct k) p) conf)"
  by (cases k) (simp_all add: IsWellFormed_def)

lemma NewOperation_Struct:
  "NewOperation (Some (Iface (Struct k) p))
     = (\<lparr>H = \<lparr>Type = variantType k\<rparr>, B = Some (Iface (Struct k) p)\<rparr>, None)"
  by (cases k) simp_all

lemma NewOperation_default:
  assumes "\<forall>k p. opb \<noteq> Some (Iface (Struct k) p)"
  shows "NewOperation opb = (zero_Operation, Some UnknownOperationType)"
proof (cases opb)
  case None
  then show ?thesis by simp
next
  case (Some body)
  obtain T v where body: "body = Iface T v" by (cases body)
  with Some assms have "\<forall>k. T \<noteq> Struct k" by auto
  then show ?thesis using Some body by (cases T) simp_all
qed

text \<open>
  C6. For every payload whose dynamic type is not one of the eight structs (the nil
  interface included), \<open>NewOperation\<close> returns the error \<open>UnknownOperationType\<close>
  together with the zero value of \<open>Operation\<close>.
\<close>

theorem NewOperation_unregistered:
  assumes "\<forall>k p. opb \<noteq> Some (Iface (Struct k) p)"
  shows "NewOperation opb = (zero_Operation, Some UnknownOperationType)"
  using assms by (rule NewOperation_default)

theorem NewOperation_unregistered_witness:
  "(\<forall>k p. Some (Iface (Foreign ''testBody'') (7 :: nat)) \<noteq> Some (Iface (Struct k) p)) \<and>
   NewOperation (Some (Iface (Foreign ''testBody'') (7 :: nat))) =
     (zero_Operation, Some UnknownOperationType)"
proof -
  have h: "\<forall>k p. Some (Iface (Foreign ''testBody'') (7 :: nat)) \<noteq> Some (Iface (Struct k) p)"
    by simp
  show ?thesis using h NewOperation_unregistered [OF h] by simp
qed

text \<open>
  C10. The type switch of \<open>NewOperation\<close> names the struct types themselves. A
  pointer to one of them is a \<open>Body\<close> of another dynamic type: it takes the default
  arm and is refused with \<open>UnknownOperationType\<close>.
\<close>

theorem NewOperation_pointer:
  "NewOperation (Some (Iface (PtrTo k) p)) = (zero_Operation, Some UnknownOperationType)"
  by simp

subsection \<open>The delegating methods\<close>

text \<open>
  C9. Whatever the header is, \<open>IsWellFormed\<close> of an operation returns what
  \<open>IsWellFormed\<close> of its body returns for the same configuration, the error
  included, and \<open>HasFee\<close> returns what \<open>HasFee\<close> of its body returns. An operation
  without a body has nothing to delegate to: both calls panic.
\<close>

theorem Operation_methods_delegate:
  "IsWellFormed body_wf \<lparr>H = h, B = Some b\<rparr> conf = Returns (body_wf b conf) \<and>
   HasFee body_fee \<lparr>H = h, B = Some b\<rparr> = Returns (body_fee b) \<and>
   IsWellFormed body_wf \<lparr>H = h, B = None\<rparr> conf = Panics \<and>
   HasFee body_fee \<lparr>H = h, B = None\<rparr> = Panics"
  by (simp add: IsWellFormed_def HasFee_def)

subsection \<open>The decoder\<close>

lemma UnmarshalBodyJSON_variantType:
  "UnmarshalBodyJSON u (variantType k) b = decode_as u k b"
  by (cases k) (simp_all add: UnmarshalBodyJSON_def OperationType_defs)

lemma UnmarshalBodyJSON_unknown:
  assumes "t \<notin> {TypeCreateAccount, TypePayment, TypeCongressVoting, TypeCongressVotingResult,
          TypeCollectTxFee, TypeInflation, TypeUnfreezingRequest, TypeInflationPF}"
  shows "UnmarshalBodyJSON u t b = (None, Some InvalidOperation)"
  using assms by (simp add: UnmarshalBodyJSON_def)

lemma known_tag:
  assumes "t \<in> {TypeCreateAccount, TypePayment, TypeCongressVoting, TypeCongressVotingResult,
          TypeCollectTxFee, TypeInflation, TypeUnfreezingRequest, TypeInflationPF}"
  obtains k where "t = variantType k"
proof -
  from assms have "t \<in> range variantType"
    by (metis (no_types) insertE empty_iff rangeI variantType.simps)
  then show ?thesis using that by blast
qed

lemma UnmarshalBodyJSON_None:
  assumes "UnmarshalBodyJSON u t b = (body, None)"
  shows "\<exists>k p. t = variantType k \<and> u k b = Inr p \<and> body = Some (Iface (Struct k) p)"
proof (cases "t \<in> {TypeCreateAccount, TypePayment, TypeCongressVoting, TypeCongressVotingResult,
          TypeCollectTxFee, TypeInflation, TypeUnfreezingRequest, TypeInflationPF}")
  case False
  with assms show ?thesis by (simp add: UnmarshalBodyJSON_unknown)
next
  case True
  then obtain k where k: "t = variantType k" by (rule known_tag)
  with assms have "decode_as u k b = (body, None)" by (simp add: UnmarshalBodyJSON_variantType)
  then have "\<exists>p. u k b = Inr p \<and> body = Some (Iface (Struct k) p)"
    by (auto simp: decode_as_def split: sum.splits)
  with k show ?thesis by blast
qed

lemma UnmarshalJSON_envelope_error:
  "jenv b = Inl e \<Longrightarrow> UnmarshalJSON jenv jbody op b = (op, Some e)"
  by (simp add: UnmarshalJSON_def)

lemma UnmarshalJSON_body_error:
  assumes "jenv b = Inr (h, rawb)" and "snd (UnmarshalBodyJSON jbody (Type h) rawb) = Some e"
  shows "UnmarshalJSON jenv jbody op b = (op\<lparr>H := h\<rparr>, Some e)"
  using assms by (cases "UnmarshalBodyJSON jbody (Type h) rawb") (simp add: UnmarshalJSON_def)

lemma UnmarshalJSON_decoded:
  assumes "jenv b = Inr (h, rawb)" and "Type h = variantType k" and "jbody k rawb = Inr p"
  shows "UnmarshalJSON jenv jbody op b = (\<lparr>H = h, B = Some (Iface (Struct k) p)\<rparr>, None)"
  using assms by (simp add: UnmarshalJSON_def UnmarshalBodyJSON_variantType decode_as_def)

lemma UnmarshalJSON_success:
  assumes "snd (UnmarshalJSON jenv jbody op b) = None"
  shows "\<exists>h rawb k p. jenv b = Inr (h, rawb) \<and> Type h = variantType k \<and> jbody k rawb = Inr p \<and>
           fst (UnmarshalJSON jenv jbody op b) = \<lparr>H = h, B = Some (Iface (Struct k) p)\<rparr>"
proof (cases "jenv b")
  case (Inl e)
  with assms show ?thesis by (simp add: UnmarshalJSON_def)
next
  case (Inr hr)
  obtain h rawb where hr: "hr = (h, rawb)" by (cases hr)
  obtain body err where r: "UnmarshalBodyJSON jbody (Type h) rawb = (body, err)"
    by (cases "UnmarshalBodyJSON jbody (Type h) rawb")
  from assms Inr hr r have err: "err = None"
    by (cases err) (simp_all add: UnmarshalJSON_def)
  with r obtain k p where kp: "Type h = variantType k" "jbody k rawb = Inr p"
      "body = Some (Iface (Struct k) p)"
    using UnmarshalBodyJSON_None by blast
  from Inr hr r err kp have "fst (UnmarshalJSON jenv jbody op b) = \<lparr>H = h, B = Some (Iface (Struct k) p)\<rparr>"
    by (simp add: UnmarshalJSON_def)
  with Inr hr kp show ?thesis by blast
qed

text \<open>
  C3, as the code has it. For every tag that is none of the eight tag constants,
  \<open>UnmarshalBodyJSON\<close> returns a nil body and \<open>InvalidOperation\<close> whatever the
  payload decoder and the raw bytes are: the decoder is not consulted. When the envelope
  carries such a tag, \<open>UnmarshalJSON\<close> returns \<open>InvalidOperation\<close> and assigns no
  body; the receiver keeps its body and holds the header of the envelope.
\<close>

theorem unknown_tag_InvalidOperation:
  "(t \<notin> {TypeCreateAccount, TypePayment, TypeCongressVoting, TypeCongressVotingResult,
          TypeCollectTxFee, TypeInflation, TypeUnfreezingRequest, TypeInflationPF} \<longrightarrow>
      UnmarshalBodyJSON jbody t rawb = (None, Some InvalidOperation)) \<and>
   (jenv b = Inr (h, rawb') \<and>
    Type h \<notin> {TypeCreateAccount, TypePayment, TypeCongressVoting, TypeCongressVotingResult,
          TypeCollectTxFee, TypeInflation, TypeUnfreezingRequest, TypeInflationPF} \<longrightarrow>
      UnmarshalJSON jenv jbody op b = (op\<lparr>H := h\<rparr>, Some InvalidOperation))"
proof -
  have "UnmarshalJSON jenv jbody op b = (op\<lparr>H := h\<rparr>, Some InvalidOperation)"
    if "jenv b = Inr (h, rawb')"
      and "Type h \<notin> {TypeCreateAccount, TypePayment, TypeCongressVoting, TypeCongressVotingResult,
          TypeCollectTxFee, TypeInflation, TypeUnfreezingRequest, TypeInflationPF}"
  proof -
    from that(2) have "snd (UnmarshalBodyJSON jbody (Type h) rawb') = Some InvalidOperation"
      by (simp add: UnmarshalBodyJSON_unknown)
    with that(1) show ?thesis by (rule UnmarshalJSON_body_error)
  qed
  then show ?thesis using UnmarshalBodyJSON_unknown [of t jbody rawb] by blast
qed

theorem unknown_tag_InvalidOperation_witness:
  \<open>(''Payment'' \<notin> {TypeCreateAccount, TypePayment, TypeCongressVoting, TypeCongressVotingResult,
          TypeCollectTxFee, TypeInflation, TypeUnfreezingRequest, TypeInflationPF} \<and>
    UnmarshalBodyJSON fields_Unmarshal ''Payment'' ''{"target":"GABC"}'' = (None, Some InvalidOperation)) \<and>
   (json_Unmarshal_envelop ''{"H":{"type":"Payment"},"B":{"target":"GABC"}}''
      = Inr (\<lparr>Type = ''Payment''\<rparr>, ''{"target":"GABC"}'') \<and>
    Type \<lparr>Type = ''Payment''\<rparr> \<notin> {TypeCreateAccount, TypePayment, TypeCongressVoting,
          TypeCongressVotingResult, TypeCollectTxFee, TypeInflation, TypeUnfreezingRequest,
          TypeInflationPF} \<and>
    UnmarshalJSON json_Unmarshal_envelop fields_Unmarshal
      \<lparr>H = \<lparr>Type = ''inflation''\<rparr>, B = Some (Iface (Struct Inflation) [])\<rparr>
      ''{"H":{"type":"Payment"},"B":{"target":"GABC"}}''
      = (\<lparr>H = \<lparr>Type = ''Payment''\<rparr>, B = Some (Iface (Struct Inflation) [])\<rparr>, Some InvalidOperation))\<close>
proof -
  let ?op = "\<lparr>H = \<lparr>Type = ''inflation''\<rparr>, B = Some (Iface (Struct Inflation) ([] :: fields))\<rparr>"
  have tag: "''Payment'' \<notin> {TypeCreateAccount, TypePayment, TypeCongressVoting,
      TypeCongressVotingResult, TypeCollectTxFee, TypeInflation, TypeUnfreezingRequest, TypeInflationPF}"
    by (simp add: OperationType_defs)
  have tag': "Type \<lparr>Type = ''Payment''\<rparr> \<notin> {TypeCreateAccount, TypePayment, TypeCongressVoting,
      TypeCongressVotingResult, TypeCollectTxFee, TypeInflation, TypeUnfreezingRequest, TypeInflationPF}"
    by (simp add: OperationType_defs)
  have env: \<open>json_Unmarshal_envelop ''{"H":{"type":"Payment"},"B":{"target":"GABC"}}''
      = Inr (\<lparr>Type = ''Payment''\<rparr>, ''{"target":"GABC"}'')\<close>
    by code_simp
  note t = unknown_tag_InvalidOperation [of "''Payment''" fields_Unmarshal \<open>''{"target":"GABC"}''\<close>
      json_Unmarshal_envelop \<open>''{"H":{"type":"Payment"},"B":{"target":"GABC"}}''\<close>
      \<open>\<lparr>Type = ''Payment''\<rparr>\<close> \<open>''{"target":"GABC"}''\<close> ?op]
  from t tag have c1: \<open>UnmarshalBodyJSON fields_Unmarshal ''Payment'' ''{"target":"GABC"}''
      = (None, Some InvalidOperation)\<close>
    by blast
  from t env tag' have c2: \<open>UnmarshalJSON json_Unmarshal_envelop fields_Unmarshal ?op
      ''{"H":{"type":"Payment"},"B":{"target":"GABC"}}''
      = (?op\<lparr>H := \<lparr>Type = ''Payment''\<rparr>\<rparr>, Some InvalidOperation)\<close>
    by blast
  from tag tag' env c1 c2 show ?thesis by simp
qed

text \<open>
  C3 as stated fails in its last part: after the failed call the caller's operation is
  partly filled. A fresh operation decoded from an envelope with the tag \<open>bogus\<close>
  comes back with that tag in its header and no body, which is not the operation it was.
\<close>

theorem unknown_tag_counterexample:
  \<open>UnmarshalJSON json_Unmarshal_envelop fields_Unmarshal zero_Operation
      ''{"H":{"type":"bogus"},"B":{}}''
    = (\<lparr>H = \<lparr>Type = ''bogus''\<rparr>, B = None\<rparr>, Some InvalidOperation) \<and>
   (\<lparr>H = \<lparr>Type = ''bogus''\<rparr>, B = None\<rparr> :: fields Operation) \<noteq> zero_Operation\<close>
  by code_simp

text \<open>
  C1, as the code has it. A call that returns no error has decoded the envelope and the
  payload, and the receiver is the decoded header with the decoded struct. A call that
  returns an error leaves the body of the receiver as it was. When the envelope does
  not decode, the receiver is unchanged; when the envelope decodes and the body step
  fails, the receiver holds the header of the envelope and its old body.
\<close>

theorem UnmarshalJSON_receiver:
  "(snd (UnmarshalJSON jenv jbody op b) = None \<longrightarrow>
      (\<exists>h rawb k p. jenv b = Inr (h, rawb) \<and> Type h = variantType k \<and> jbody k rawb = Inr p \<and>
         fst (UnmarshalJSON jenv jbody op b) = \<lparr>H = h, B = Some (Iface (Struct k) p)\<rparr>)) \<and>
   (snd (UnmarshalJSON jenv jbody op b) \<noteq> None \<longrightarrow>
      B (fst (UnmarshalJSON jenv jbody op b)) = B op) \<and>
   (jenv b = Inl e \<longrightarrow> UnmarshalJSON jenv jbody op b = (op, Some e)) \<and>
   (jenv b = Inr (h', rawb') \<and> snd (UnmarshalBodyJSON jbody (Type h') rawb') = Some e' \<longrightarrow>
      UnmarshalJSON jenv jbody op b = (op\<lparr>H := h'\<rparr>, Some e'))"
proof -
  have "B (fst (UnmarshalJSON jenv jbody op b)) = B op"
    if "snd (UnmarshalJSON jenv jbody op b) \<noteq> None"
  proof (cases "jenv b")
    case (Inl e)
    then show ?thesis by (simp add: UnmarshalJSON_envelope_error)
  next
    case (Inr hr)
    obtain h rawb where hr: "hr = (h, rawb)" by (cases hr)
    obtain body err where r: "UnmarshalBodyJSON jbody (Type h) rawb = (body, err)"
      by (cases "UnmarshalBodyJSON jbody (Type h) rawb")
    from that Inr hr r obtain e where "err = Some e"
      by (cases err) (simp_all add: UnmarshalJSON_def)
    with Inr hr r show ?thesis
      by (simp add: UnmarshalJSON_body_error)
  qed
  then show ?thesis
    using UnmarshalJSON_success [of jenv jbody op b]
      UnmarshalJSON_envelope_error [of jenv b e jbody op]
      UnmarshalJSON_body_error [of jenv b h' rawb' jbody e' op]
    by blast
qed

theorem UnmarshalJSON_receiver_witness:
  \<open>(snd (UnmarshalJSON json_Unmarshal_envelop fields_Unmarshal zero_Operation
          ''{"H":{"type":"payment"},"B":{"target":"GABC","amount":"100"}}'') = None \<and>
    (\<exists>h rawb k p.
       json_Unmarshal_envelop ''{"H":{"type":"payment"},"B":{"target":"GABC","amount":"100"}}''
         = Inr (h, rawb) \<and>
       Type h = variantType k \<and> fields_Unmarshal k rawb = Inr p \<and>
       fst (UnmarshalJSON json_Unmarshal_envelop fields_Unmarshal zero_Operation
              ''{"H":{"type":"payment"},"B":{"target":"GABC","amount":"100"}}'')
         = \<lparr>H = h, B = Some (Iface (Struct k) p)\<rparr>)) \<and>
   (snd (UnmarshalJSON json_Unmarshal_envelop fields_Unmarshal
          \<lparr>H = \<lparr>Type = ''inflation''\<rparr>, B = Some (Iface (Struct Inflation) [])\<rparr>
          ''{"H":{"type":"payment"},"B":[1]}'') \<noteq> None \<and>
    B (fst (UnmarshalJSON json_Unmarshal_envelop fields_Unmarshal
          \<lparr>H = \<lparr>Type = ''inflation''\<rparr>, B = Some (Iface (Struct Inflation) [])\<rparr>
          ''{"H":{"type":"payment"},"B":[1]}''))
      = Some (Iface (Struct Inflation) [])) \<and>
   (json_Unmarshal_envelop ''{"H":'' = Inl SyntaxError \<and>
    UnmarshalJSON json_Unmarshal_envelop fields_Unmarshal
      \<lparr>H = \<lparr>Type = ''inflation''\<rparr>, B = Some (Iface (Struct Inflation) [])\<rparr> ''{"H":''
      = (\<lparr>H = \<lparr>Type = ''inflation''\<rparr>, B = Some (Iface (Struct Inflation) [])\<rparr>, Some SyntaxError)) \<and>
   (json_Unmarshal_envelop ''{"H":{"type":"payment"},"B":[1]}'' = Inr (\<lparr>Type = ''payment''\<rparr>, ''[1]'') \<and>
    snd (UnmarshalBodyJSON fields_Unmarshal ''payment'' ''[1]'') = Some UnmarshalTypeError \<and>
    UnmarshalJSON json_Unmarshal_envelop fields_Unmarshal
      \<lparr>H = \<lparr>Type = ''inflation''\<rparr>, B = Some (Iface (Struct Inflation) [])\<rparr>
      ''{"H":{"type":"payment"},"B":[1]}''
      = (\<lparr>H = \<lparr>Type = ''payment''\<rparr>, B = Some (Iface (Struct Inflation) [])\<rparr>, Some UnmarshalTypeError))\<close>
proof -
  let ?op = "\<lparr>H = \<lparr>Type = ''inflation''\<rparr>, B = Some (Iface (Struct Inflation) ([] :: fields))\<rparr>"
  have ok: \<open>snd (UnmarshalJSON json_Unmarshal_envelop fields_Unmarshal (zero_Operation :: fields Operation)
          ''{"H":{"type":"payment"},"B":{"target":"GABC","amount":"100"}}'') = None\<close>
    by code_simp
  have bad: \<open>snd (UnmarshalJSON json_Unmarshal_envelop fields_Unmarshal ?op
          ''{"H":{"type":"payment"},"B":[1]}'') \<noteq> None\<close>
    by code_simp
  have env: \<open>json_Unmarshal_envelop ''{"H":'' = Inl SyntaxError\<close>
    by code_simp
  have env2: \<open>json_Unmarshal_envelop ''{"H":{"type":"payment"},"B":[1]}'' = Inr (\<lparr>Type = ''payment''\<rparr>, ''[1]'')\<close>
    by code_simp
  have body: \<open>snd (UnmarshalBodyJSON fields_Unmarshal (Type \<lparr>Type = ''payment''\<rparr>) ''[1]'') = Some UnmarshalTypeError\<close>
    by code_simp
  note t1 = UnmarshalJSON_receiver [of json_Unmarshal_envelop fields_Unmarshal "zero_Operation :: fields Operation"
      \<open>''{"H":{"type":"payment"},"B":{"target":"GABC","amount":"100"}}''\<close>]
  note t2 = UnmarshalJSON_receiver [of json_Unmarshal_envelop fields_Unmarshal ?op
      \<open>''{"H":{"type":"payment"},"B":[1]}''\<close> _ \<open>\<lparr>Type = ''payment''\<rparr>\<close> \<open>''[1]''\<close> UnmarshalTypeError]
  note t3 = UnmarshalJSON_receiver [of json_Unmarshal_envelop fields_Unmarshal ?op
      \<open>''{"H":''\<close> SyntaxError]
  from t1 ok have c1: \<open>\<exists>h rawb k p.
       json_Unmarshal_envelop ''{"H":{"type":"payment"},"B":{"target":"GABC","amount":"100"}}''
         = Inr (h, rawb) \<and>
       Type h = variantType k \<and> fields_Unmarshal k rawb = Inr p \<and>
       fst (UnmarshalJSON json_Unmarshal_envelop fields_Unmarshal zero_Operation
              ''{"H":{"type":"payment"},"B":{"target":"GABC","amount":"100"}}'')
         = \<lparr>H = h, B = Some (Iface (Struct k) p)\<rparr>\<close>
    by blast
  from t2 bad have c2: \<open>B (fst (UnmarshalJSON json_Unmarshal_envelop fields_Unmarshal ?op
          ''{"H":{"type":"payment"},"B":[1]}'')) = B ?op\<close>
    by blast
  from t3 env have c3: \<open>UnmarshalJSON json_Unmarshal_envelop fields_Unmarshal ?op ''{"H":'' = (?op, Some SyntaxError)\<close>
    by blast
  from t2 env2 body have c4: \<open>UnmarshalJSON json_Unmarshal_envelop fields_Unmarshal ?op
      ''{"H":{"type":"payment"},"B":[1]}'' = (?op\<lparr>H := \<lparr>Type = ''payment''\<rparr>\<rparr>, Some UnmarshalTypeError)\<close>
    by blast
  from ok c1 bad c2 env c3 env2 body c4 show ?thesis by simp
qed

text \<open>
  C1 as stated fails: an operation made by \<open>NewOperation\<close> from a
  \<open>CreateAccount\<close> payload, used as the receiver for an envelope with the tag
  \<open>payment\<close> and no body, comes back with the error of the body step, the header
  \<open>payment\<close> and the \<open>CreateAccount\<close> payload: the header was overwritten.
\<close>

theorem UnmarshalJSON_receiver_counterexample:
  \<open>UnmarshalJSON json_Unmarshal_envelop fields_Unmarshal
      (fst (NewOperation (Some (Iface (Struct CreateAccount) [(''target'', ''"GABC"'')]))))
      ''{"H":{"type":"payment"}}''
    = (\<lparr>H = \<lparr>Type = ''payment''\<rparr>, B = Some (Iface (Struct CreateAccount) [(''target'', ''"GABC"'')])\<rparr>,
       Some SyntaxError) \<and>
   \<lparr>H = \<lparr>Type = ''payment''\<rparr>, B = Some (Iface (Struct CreateAccount) [(''target'', ''"GABC"'')])\<rparr>
    \<noteq> fst (NewOperation (Some (Iface (Struct CreateAccount) [(''target'', ''"GABC"'')])))\<close>
  by code_simp

lemma variantType_inj: "variantType k1 = variantType k2 \<Longrightarrow> k1 = k2"
  by (cases k1; cases k2) (simp_all add: OperationType_defs)

lemma header_matches_body_iff:
  "header_matches_body op \<longleftrightarrow>
     (\<exists>k p. B op = Some (Iface (Struct k) p) \<and> Type (H op) = variantType k)"
  by (auto simp: header_matches_body_def split: option.splits Body.splits GoType.splits)

text \<open>
  C4. An operation is consistent exactly when its body holds one of the eight structs
  and its header the tag of that struct. For a payload of the struct \<open>k\<close>,
  \<open>NewOperation\<close> returns no error and the operation of the tag of \<open>k\<close> with
  that payload, which is consistent; whenever it returns no error, the payload was such
  a struct. When the envelope decodes to a header with the tag of \<open>k\<close> and the
  payload decodes as a \<open>k\<close>, \<open>UnmarshalJSON\<close> returns no error and leaves the
  receiver with that header and that struct; whenever it returns no error, this is how
  the receiver came about, so the receiver is consistent, its body the struct that the
  tag of the envelope selects. No two structs share a tag.
\<close>

theorem header_matches_body_established:
  "NewOperation (Some (Iface (Struct k) (p :: 'p)))
     = (\<lparr>H = \<lparr>Type = variantType k\<rparr>, B = Some (Iface (Struct k) p)\<rparr>, None) \<and>
   header_matches_body \<lparr>H = \<lparr>Type = variantType k\<rparr>, B = Some (Iface (Struct k) p)\<rparr> \<and>
   (snd (NewOperation (opb :: 'p Body option)) = None \<longrightarrow>
      (\<exists>k' p'. opb = Some (Iface (Struct k') p') \<and>
         fst (NewOperation opb) = \<lparr>H = \<lparr>Type = variantType k'\<rparr>, B = opb\<rparr>) \<and>
      header_matches_body (fst (NewOperation opb))) \<and>
   (jenv b = Inr (h, rawb) \<and> Type h = variantType k \<and> jbody k rawb = Inr p \<longrightarrow>
      UnmarshalJSON jenv jbody op b = (\<lparr>H = h, B = Some (Iface (Struct k) p)\<rparr>, None)) \<and>
   (snd (UnmarshalJSON jenv jbody op b) = None \<longrightarrow>
      (\<exists>h' rawb' k' p'. jenv b = Inr (h', rawb') \<and> Type h' = variantType k' \<and>
         jbody k' rawb' = Inr p' \<and>
         fst (UnmarshalJSON jenv jbody op b) = \<lparr>H = h', B = Some (Iface (Struct k') p')\<rparr>) \<and>
      header_matches_body (fst (UnmarshalJSON jenv jbody op b))) \<and>
   (header_matches_body (op' :: 'p Operation) \<longleftrightarrow>
      (\<exists>k' p'. B op' = Some (Iface (Struct k') p') \<and> Type (H op') = variantType k')) \<and>
   (variantType k1 = variantType k2 \<longrightarrow> k1 = k2)"
proof -
  have new: "header_matches_body \<lparr>H = \<lparr>Type = variantType k'\<rparr>, B = Some (Iface (Struct k') p')\<rparr>"
    for k' and p' :: 'p
    by (simp add: header_matches_body_iff)
  have fac: "(\<exists>k' p'. opb = Some (Iface (Struct k') p') \<and>
         fst (NewOperation opb) = \<lparr>H = \<lparr>Type = variantType k'\<rparr>, B = opb\<rparr>) \<and>
      header_matches_body (fst (NewOperation opb))"
    if ok: "snd (NewOperation opb) = None"
  proof -
    have "\<exists>k' p'. opb = Some (Iface (Struct k') p')"
    proof (rule ccontr)
      assume "\<not> (\<exists>k' p'. opb = Some (Iface (Struct k') p'))"
      then have "NewOperation opb = (zero_Operation, Some UnknownOperationType)"
        by (intro NewOperation_default) auto
      with ok show False by simp
    qed
    then obtain k' p' where opb: "opb = Some (Iface (Struct k') p')" by blast
    then have "fst (NewOperation opb) = \<lparr>H = \<lparr>Type = variantType k'\<rparr>, B = opb\<rparr>"
      by (simp add: NewOperation_Struct)
    with opb new [of k' p'] show ?thesis by auto
  qed
  have dec: "(\<exists>h' rawb' k' p'. jenv b = Inr (h', rawb') \<and> Type h' = variantType k' \<and>
         jbody k' rawb' = Inr p' \<and>
         fst (UnmarshalJSON jenv jbody op b) = \<lparr>H = h', B = Some (Iface (Struct k') p')\<rparr>) \<and>
      header_matches_body (fst (UnmarshalJSON jenv jbody op b))"
    if "snd (UnmarshalJSON jenv jbody op b) = None"
    using UnmarshalJSON_success [OF that] by (auto simp: header_matches_body_iff)
  show ?thesis
    using NewOperation_Struct [of k p] new [of k p] fac dec
      UnmarshalJSON_decoded [of jenv b h rawb k jbody p op]
      header_matches_body_iff [of op'] variantType_inj [of k1 k2]
    by blast
qed

theorem header_matches_body_witness:
  \<open>(snd (NewOperation (Some (Iface (Struct InflationPF) [(''amount'', ''"5"'')]))) = None \<and>
    (\<exists>k' p'. Some (Iface (Struct InflationPF) [(''amount'', ''"5"'')]) = Some (Iface (Struct k') p') \<and>
       fst (NewOperation (Some (Iface (Struct InflationPF) [(''amount'', ''"5"'')])))
         = \<lparr>H = \<lparr>Type = variantType k'\<rparr>, B = Some (Iface (Struct InflationPF) [(''amount'', ''"5"'')])\<rparr>) \<and>
    header_matches_body (fst (NewOperation (Some (Iface (Struct InflationPF) [(''amount'', ''"5"'')]))))) \<and>
   (json_Unmarshal_envelop ''{"H":{"type":"inflation-pf"},"B":{"amount":"5"}}''
      = Inr (\<lparr>Type = ''inflation-pf''\<rparr>, ''{"amount":"5"}'') \<and>
    Type \<lparr>Type = ''inflation-pf''\<rparr> = variantType InflationPF \<and>
    fields_Unmarshal InflationPF ''{"amount":"5"}'' = Inr [(''amount'', ''"5"'')] \<and>
    UnmarshalJSON json_Unmarshal_envelop fields_Unmarshal zero_Operation
      ''{"H":{"type":"inflation-pf"},"B":{"amount":"5"}}''
      = (\<lparr>H = \<lparr>Type = ''inflation-pf''\<rparr>, B = Some (Iface (Struct InflationPF) [(''amount'', ''"5"'')])\<rparr>,
         None)) \<and>
   (snd (UnmarshalJSON json_Unmarshal_envelop fields_Unmarshal zero_Operation
           ''{"H":{"type":"inflation-pf"},"B":{"amount":"5"}}'') = None \<and>
    (\<exists>h' rawb' k' p'.
       json_Unmarshal_envelop ''{"H":{"type":"inflation-pf"},"B":{"amount":"5"}}'' = Inr (h', rawb') \<and>
       Type h' = variantType k' \<and> fields_Unmarshal k' rawb' = Inr p' \<and>
       fst (UnmarshalJSON json_Unmarshal_envelop fields_Unmarshal zero_Operation
              ''{"H":{"type":"inflation-pf"},"B":{"amount":"5"}}'')
         = \<lparr>H = h', B = Some (Iface (Struct k') p')\<rparr>) \<and>
    header_matches_body (fst (UnmarshalJSON json_Unmarshal_envelop fields_Unmarshal zero_Operation
           ''{"H":{"type":"inflation-pf"},"B":{"amount":"5"}}''))) \<and>
   (variantType UnfreezeRequest = variantType UnfreezeRequest \<and> UnfreezeRequest = UnfreezeRequest)\<close>
proof -
  have new: \<open>snd (NewOperation (Some (Iface (Struct InflationPF) [(''amount'', ''"5"'')]))) = None\<close>
    by simp
  have env: \<open>json_Unmarshal_envelop ''{"H":{"type":"inflation-pf"},"B":{"amount":"5"}}''
      = Inr (\<lparr>Type = ''inflation-pf''\<rparr>, ''{"amount":"5"}'')\<close>
    by code_simp
  have tag: \<open>Type \<lparr>Type = ''inflation-pf''\<rparr> = variantType InflationPF\<close>
    by (simp add: TypeInflationPF_def)
  have pay: \<open>fields_Unmarshal InflationPF ''{"amount":"5"}'' = Inr [(''amount'', ''"5"'')]\<close>
    by code_simp
  have dec: \<open>snd (UnmarshalJSON json_Unmarshal_envelop fields_Unmarshal (zero_Operation :: fields Operation)
           ''{"H":{"type":"inflation-pf"},"B":{"amount":"5"}}'') = None\<close>
    by code_simp
  note t = header_matches_body_established
    [where k = InflationPF and p = \<open>[(''amount'', ''"5"'')]\<close>
       and opb = \<open>Some (Iface (Struct InflationPF) [(''amount'', ''"5"'')])\<close>
       and jenv = json_Unmarshal_envelop and jbody = fields_Unmarshal
       and b = \<open>''{"H":{"type":"inflation-pf"},"B":{"amount":"5"}}''\<close>
       and h = \<open>\<lparr>Type = ''inflation-pf''\<rparr>\<close> and rawb = \<open>''{"amount":"5"}''\<close>
       and op = "zero_Operation :: fields Operation"
       and ?k1.0 = UnfreezeRequest and ?k2.0 = UnfreezeRequest]
  from t new env tag pay dec show ?thesis by blast
qed

subsection \<open>The scanner inside an object\<close>



















subsection \<open>The envelope of an encoded operation\<close>













end
